theory Spec2Isabelle
  imports Complex_Main "HOL-Library.Word"
begin

unbundle bit_operations_syntax

section \<open>The BSP container interface of \<^verbatim>\<open>include/common/bspfile.hh\<close>\<close>

text \<open>
  The header declares the value types for content and surface flags, the game contract
  (an abstract class), the format descriptor with its display formatting, and the
  document with its extensible lump table. Functions whose bodies the header holds are
  translated from those bodies. Member functions that the header only declares are
  marked where they are used.
\<close>

subsection \<open>Primitive types\<close>

type_synonym int32_t = "32 word"
type_synonym uint8_t = "8 word"
type_synonym size_t = "64 word"

text \<open>
  A raw pointer: null, or the address of an object. The objects pointed to (format
  descriptors, game definitions, lump buffers) live outside the values modelled here.
\<close>

datatype pointer = Null | Ptr nat

subsection \<open>Content flags\<close>

text \<open>
  \<^verbatim>\<open>struct contentflags_t\<close>. The member \<^verbatim>\<open>std::any game_data\<close> is opaque to this header;
  its type is the parameter \<open>'g\<close>. The two overrides are \<^verbatim>\<open>std::optional<bool>\<close>.
\<close>

record 'g contentflags_t =
  native :: int32_t
  game_data :: 'g
  mirror_inside :: "bool option"
  clips_same_type :: "bool option"
  illusionary_visblocker :: bool

text \<open>
  \<^verbatim>\<open>struct gamedef_t\<close>: its identifier, its two capability flags and the pure virtual
  content queries that the member functions of \<^verbatim>\<open>contentflags_t\<close> below call. The other
  members (directory and entity limits, surface queries, hulls, palette, statistics) play
  no part in what follows. An implementation of the abstract class is a value of this
  record; a call through \<^verbatim>\<open>const gamedef_t *game\<close> is the application of the field to
  the argument. The member \<^verbatim>\<open>id\<close> is \<open>game_id\<close> here.
\<close>

datatype gameid_t =
  GAME_UNKNOWN | GAME_QUAKE | GAME_HEXEN_II | GAME_HALF_LIFE | GAME_QUAKE_II | GAME_TOTAL

record 'g gamedef_t =
  game_id :: gameid_t
  has_rgb_lightmap :: bool
  allow_contented_bmodels :: bool
  contents_are_detail_solid :: "'g contentflags_t \<Rightarrow> bool"
  contents_are_detail_fence :: "'g contentflags_t \<Rightarrow> bool"
  contents_are_detail_illusionary :: "'g contentflags_t \<Rightarrow> bool"
  contents_clip_same_type :: "'g contentflags_t \<Rightarrow> 'g contentflags_t \<Rightarrow> bool"
  contents_are_solid :: "'g contentflags_t \<Rightarrow> bool"

text \<open>
  Modelled from the spec: the bodies of \<^verbatim>\<open>is_solid\<close>, \<^verbatim>\<open>is_detail_solid\<close>, \<^verbatim>\<open>is_detail_fence\<close>,
  \<^verbatim>\<open>is_detail_illusionary\<close> and of the two-argument \<^verbatim>\<open>will_clip_same_type\<close> are not in the
  header, which only declares them. The specification says that the flag values
  "delegate every semantic question to a supplied game contract"; each is the call of
  the contract's method of the matching name.
\<close>

definition is_solid :: "'g gamedef_t \<Rightarrow> 'g contentflags_t \<Rightarrow> bool" where
  "is_solid game this = contents_are_solid game this"

definition is_detail_solid :: "'g gamedef_t \<Rightarrow> 'g contentflags_t \<Rightarrow> bool" where
  "is_detail_solid game this = contents_are_detail_solid game this"

definition is_detail_fence :: "'g gamedef_t \<Rightarrow> 'g contentflags_t \<Rightarrow> bool" where
  "is_detail_fence game this = contents_are_detail_fence game this"

definition is_detail_illusionary :: "'g gamedef_t \<Rightarrow> 'g contentflags_t \<Rightarrow> bool" where
  "is_detail_illusionary game this = contents_are_detail_illusionary game this"

definition will_clip_same_type_other ::
    "'g gamedef_t \<Rightarrow> 'g contentflags_t \<Rightarrow> 'g contentflags_t \<Rightarrow> bool" where
  "will_clip_same_type_other game this other = contents_clip_same_type game this other"

text \<open>
  The inline members, from their bodies in the header.
  \<^verbatim>\<open>will_clip_same_type(game)\<close> is \<^verbatim>\<open>will_clip_same_type(game, *this)\<close>;
  \<^verbatim>\<open>is_any_solid(game)\<close> is \<^verbatim>\<open>is_solid(game) || is_detail_solid(game)\<close>;
  \<^verbatim>\<open>is_fence(game)\<close> is \<^verbatim>\<open>is_detail_fence(game) || is_detail_illusionary(game)\<close>.
\<close>

definition will_clip_same_type :: "'g gamedef_t \<Rightarrow> 'g contentflags_t \<Rightarrow> bool" where
  "will_clip_same_type game this = will_clip_same_type_other game this this"

definition is_any_solid :: "'g gamedef_t \<Rightarrow> 'g contentflags_t \<Rightarrow> bool" where
  "is_any_solid game this = (is_solid game this \<or> is_detail_solid game this)"

definition is_fence :: "'g gamedef_t \<Rightarrow> 'g contentflags_t \<Rightarrow> bool" where
  "is_fence game this = (is_detail_fence game this \<or> is_detail_illusionary game this)"

text \<open>
  The two setters mutate the object they are called on and return \<^verbatim>\<open>*this\<close> by reference.
  Objects live in a store from addresses to values; a reference is an address. A call on
  an address that holds no object has no defined result (\<open>None\<close>).
\<close>

type_synonym 'g store = "nat \<rightharpoonup> 'g contentflags_t"

definition set_mirrored ::
    "'g store \<Rightarrow> nat \<Rightarrow> bool option \<Rightarrow> ('g store \<times> nat) option" where
  "set_mirrored h this mirror_inside_value =
     (case h this of
        None \<Rightarrow> None
      | Some c \<Rightarrow> Some (h(this \<mapsto> c\<lparr>mirror_inside := mirror_inside_value\<rparr>), this))"

definition set_clips_same_type ::
    "'g store \<Rightarrow> nat \<Rightarrow> bool option \<Rightarrow> ('g store \<times> nat) option" where
  "set_clips_same_type h this clips_same_type_value =
     (case h this of
        None \<Rightarrow> None
      | Some c \<Rightarrow> Some (h(this \<mapsto> c\<lparr>clips_same_type := clips_same_type_value\<rparr>), this))"

subsection \<open>Surface flags\<close>

text \<open>
  Modelled from the spec: \<^verbatim>\<open>vec_t\<close>, \<^verbatim>\<open>qvec3b\<close> and \<^verbatim>\<open>qv::emptyExact\<close> come from
  \<^verbatim>\<open>common/qvec.hh\<close>, which the header includes and which is not among the sources at
  hand; the specification counts them among the "fixed-size vector" numeric primitives.
  \<^verbatim>\<open>vec_t\<close> is a binary floating-point number. Only its comparisons are used here, so a
  value is kept up to comparison: not-a-number, an infinity, or a finite number (the two
  signed zeros compare equal and are the one value \<open>Fin 0\<close>). \<^verbatim>\<open>qvec3b\<close> is a vector of
  three bytes, ordered as an array of three bytes is: lexicographically.
  \<^verbatim>\<open>emptyExact\<close> holds when every component is exactly zero.
\<close>

datatype vec_t = NaN | NegInf | Fin real | PosInf

type_synonym qvec3b = "uint8_t \<times> uint8_t \<times> uint8_t"

definition emptyExact :: "qvec3b \<Rightarrow> bool" where
  "emptyExact v = (case v of (x, y, z) \<Rightarrow> x = 0 \<and> y = 0 \<and> z = 0)"

text \<open>
  The built-in comparisons and conversions that the member functions apply to the fields.
  \<open>vec_less\<close> is \<^verbatim>\<open><\<close> on floating-point numbers: false whenever an operand is not a
  number. \<open>vec_to_bool\<close> is the conversion of a floating-point number to \<^verbatim>\<open>bool\<close> in a
  condition: true unless the number compares equal to zero. \<open>bool_less\<close> is \<^verbatim>\<open><\<close> on
  \<^verbatim>\<open>bool\<close> (false before true), \<open>int32_less\<close> is \<^verbatim>\<open><\<close> on \<^verbatim>\<open>int32_t\<close> (signed).
\<close>

fun vec_less :: "vec_t \<Rightarrow> vec_t \<Rightarrow> bool" where
  "vec_less NaN y = False"
| "vec_less x NaN = False"
| "vec_less NegInf NegInf = False"
| "vec_less NegInf y = True"
| "vec_less (Fin x) NegInf = False"
| "vec_less (Fin x) (Fin y) = (x < y)"
| "vec_less (Fin x) PosInf = True"
| "vec_less PosInf y = False"

fun vec_to_bool :: "vec_t \<Rightarrow> bool" where
  "vec_to_bool (Fin x) = (x \<noteq> 0)"
| "vec_to_bool x = True"

definition bool_less :: "bool \<Rightarrow> bool \<Rightarrow> bool" where
  "bool_less a b = (\<not> a \<and> b)"

definition int32_less :: "int32_t \<Rightarrow> int32_t \<Rightarrow> bool" where
  "int32_less a b = (sint a < sint b)"

definition qvec3b_less :: "qvec3b \<Rightarrow> qvec3b \<Rightarrow> bool" where
  "qvec3b_less v w =
     (case v of (x1, y1, z1) \<Rightarrow> case w of (x2, y2, z2) \<Rightarrow>
        x1 < x2 \<or> (x1 = x2 \<and> (y1 < y2 \<or> (y1 = y2 \<and> z1 < z2))))"

text \<open>\<^verbatim>\<open>struct surfflags_t\<close>, field by field in the order of the header.\<close>

record surfflags_t =
  native :: int32_t
  is_skip :: bool
  is_hint :: bool
  no_dirt :: bool
  no_shadow :: bool
  no_bounce :: bool
  no_minlight :: bool
  no_expand :: bool
  light_ignore :: bool
  phong_angle :: vec_t
  phong_angle_concave :: vec_t
  minlight :: vec_t
  minlight_color :: qvec3b
  light_alpha :: vec_t

text \<open>
  The struct has no default member initialisers and no constructor: a value-initialised
  object (\<^verbatim>\<open>surfflags_t{}\<close>) has every member zero. That is the default value.
\<close>

definition surfflags_default :: surfflags_t where
  "surfflags_default =
     \<lparr>native = 0, is_skip = False, is_hint = False, no_dirt = False, no_shadow = False,
      no_bounce = False, no_minlight = False, no_expand = False, light_ignore = False,
      phong_angle = Fin 0, phong_angle_concave = Fin 0, minlight = Fin 0,
      minlight_color = (0, 0, 0), light_alpha = Fin 0\<rparr>"

definition needs_write :: "surfflags_t \<Rightarrow> bool" where
  "needs_write s =
     (no_dirt s \<or> no_shadow s \<or> no_bounce s \<or> no_minlight s \<or> no_expand s \<or>
      light_ignore s \<or> vec_to_bool (phong_angle s) \<or> vec_to_bool (phong_angle_concave s) \<or>
      vec_to_bool (minlight s) \<or> \<not> emptyExact (minlight_color s) \<or>
      vec_to_bool (light_alpha s))"

text \<open>
  \<^verbatim>\<open>as_tuple\<close> ties the fourteen fields into a \<^verbatim>\<open>std::tuple\<close>; here a nested pair that
  ends in the empty tuple.
\<close>

type_synonym surf_tuple =
  "int32_t \<times> bool \<times> bool \<times> bool \<times> bool \<times> bool \<times> bool \<times> bool \<times> bool \<times>
   vec_t \<times> vec_t \<times> vec_t \<times> qvec3b \<times> vec_t \<times> unit"

definition as_tuple :: "surfflags_t \<Rightarrow> surf_tuple" where
  "as_tuple s =
     (native s, is_skip s, is_hint s, no_dirt s, no_shadow s, no_bounce s, no_minlight s,
      no_expand s, light_ignore s, phong_angle s, phong_angle_concave s, minlight s,
      minlight_color s, light_alpha s, ())"

text \<open>
  \<^verbatim>\<open>operator<\<close> of \<^verbatim>\<open>std::tuple\<close> compares element by element with the elements' own
  \<^verbatim>\<open><\<close>: the result for the tuples \<open>t\<close> and \<open>u\<close> is
  \<^verbatim>\<open>get<0>(t) < get<0>(u) || (!(get<0>(u) < get<0>(t)) && ttail < utail)\<close>, and false for
  empty tuples. \<open>tuple_less lt rest\<close> is one such step, \<open>tuple_end_less\<close> the end.
  Where no element is not-a-number, the three-way comparison that later language
  standards use for tuples gives the same result.
\<close>

definition tuple_less ::
    "('a \<Rightarrow> 'a \<Rightarrow> bool) \<Rightarrow> ('b \<Rightarrow> 'b \<Rightarrow> bool) \<Rightarrow> 'a \<times> 'b \<Rightarrow> 'a \<times> 'b \<Rightarrow> bool" where
  "tuple_less lt rest t u =
     (lt (fst t) (fst u) \<or> (\<not> lt (fst u) (fst t) \<and> rest (snd t) (snd u)))"

definition tuple_end_less :: "unit \<Rightarrow> unit \<Rightarrow> bool" where
  "tuple_end_less t u = False"

definition surf_tuple_less :: "surf_tuple \<Rightarrow> surf_tuple \<Rightarrow> bool" where
  "surf_tuple_less =
     tuple_less int32_less (tuple_less bool_less (tuple_less bool_less
       (tuple_less bool_less (tuple_less bool_less (tuple_less bool_less
         (tuple_less bool_less (tuple_less bool_less (tuple_less bool_less
           (tuple_less vec_less (tuple_less vec_less (tuple_less vec_less
             (tuple_less qvec3b_less (tuple_less vec_less tuple_end_less)))))))))))))"

text \<open>
  \<^verbatim>\<open>operator<\<close> and \<^verbatim>\<open>operator>\<close> of \<^verbatim>\<open>surfflags_t\<close>. On tuples, \<^verbatim>\<open>t > u\<close> is \<^verbatim>\<open>u < t\<close>.
\<close>

definition surf_less :: "surfflags_t \<Rightarrow> surfflags_t \<Rightarrow> bool" where
  "surf_less this other = surf_tuple_less (as_tuple this) (as_tuple other)"

definition surf_greater :: "surfflags_t \<Rightarrow> surfflags_t \<Rightarrow> bool" where
  "surf_greater this other = surf_tuple_less (as_tuple other) (as_tuple this)"

text \<open>
  The order the specification names, for comparison with the code's: the lexicographic
  order of the field tuple. A tuple is below another when, at the first position where
  they differ, its element is the smaller one.
\<close>

definition lex_less ::
    "('a \<Rightarrow> 'a \<Rightarrow> bool) \<Rightarrow> ('b \<Rightarrow> 'b \<Rightarrow> bool) \<Rightarrow> 'a \<times> 'b \<Rightarrow> 'a \<times> 'b \<Rightarrow> bool" where
  "lex_less lt rest t u = (lt (fst t) (fst u) \<or> (fst t = fst u \<and> rest (snd t) (snd u)))"

definition spec_lexicographic_less :: "surfflags_t \<Rightarrow> surfflags_t \<Rightarrow> bool" where
  "spec_lexicographic_less a b =
     lex_less int32_less (lex_less bool_less (lex_less bool_less
       (lex_less bool_less (lex_less bool_less (lex_less bool_less
         (lex_less bool_less (lex_less bool_less (lex_less bool_less
           (lex_less vec_less (lex_less vec_less (lex_less vec_less
             (lex_less qvec3b_less (lex_less vec_less (\<lambda>t u. False))))))))))))))
       (as_tuple a) (as_tuple b)"

text \<open>The floating-point fields of a value are all numbers (none is not-a-number).\<close>

definition no_nan :: "surfflags_t \<Rightarrow> bool" where
  "no_nan s =
     (phong_angle s \<noteq> NaN \<and> phong_angle_concave s \<noteq> NaN \<and> minlight s \<noteq> NaN \<and>
      light_alpha s \<noteq> NaN)"

subsection \<open>Format descriptors and their display formatting\<close>

text \<open>
  \<^verbatim>\<open>struct lumpspec_t\<close> and \<^verbatim>\<open>struct bspversion_t\<close>. A \<^verbatim>\<open>const char *\<close> is a string or null;
  \<^verbatim>\<open>game\<close> and \<^verbatim>\<open>extended_limits\<close> are raw pointers. The member \<^verbatim>\<open>size\<close> of a lump
  specification is \<open>size_lump\<close> here.
\<close>

record lumpspec_t =
  name :: string
  size_lump :: size_t

record bspversion_t =
  ident :: int32_t
  version :: "int32_t option"
  short_name :: "string option"
  name :: "string option"
  lumps :: "lumpspec_t list"
  game :: pointer
  extended_limits :: pointer

text \<open>
  The formatting library renders an \<^verbatim>\<open>int32_t\<close> argument of \<^verbatim>\<open>{}\<close> in decimal, with a
  minus sign for a negative number, and a character array or \<^verbatim>\<open>const char *\<close> argument as
  the characters before its first zero byte. A null \<^verbatim>\<open>const char *\<close> argument makes it
  throw a format error.
\<close>

datatype format_error = NullString

fun dec_digits :: "nat \<Rightarrow> string" where
  "dec_digits n =
     (if n < 10 then [char_of (48 + n)]
      else dec_digits (n div 10) @ [char_of (48 + n mod 10)])"

definition format_int :: "int \<Rightarrow> string" where
  "format_int i = (if i < 0 then CHR ''-'' # dec_digits (nat (- i)) else dec_digits (nat i))"

definition c_str :: "uint8_t list \<Rightarrow> string" where
  "c_str bs = map (\<lambda>b. char_of (unat b)) (takeWhile (\<lambda>b. b \<noteq> 0) bs)"

text \<open>
  The four characters that \<^verbatim>\<open>format\<close> cuts out of the identifier, lowest byte first:
  \<^verbatim>\<open>(char)(v.ident & 0xFF)\<close>, \<^verbatim>\<open>(char)((v.ident >> 8) & 0xFF)\<close>, and so on. The shift of the
  signed identifier is arithmetic.
\<close>

definition ident_bytes :: "int32_t \<Rightarrow> uint8_t list" where
  "ident_bytes i =
     [ucast (i AND 0xFF), ucast (signed_drop_bit 8 i AND 0xFF),
      ucast (signed_drop_bit 16 i AND 0xFF), ucast (signed_drop_bit 24 i AND 0xFF)]"

text \<open>
  \<^verbatim>\<open>fmt::formatter<bspversion_t>::format\<close>. \<open>out\<close> is what the output iterator of the
  context has received so far; the result is what it has received when \<^verbatim>\<open>format\<close>
  returns, or the error thrown.
\<close>

definition format :: "bspversion_t \<Rightarrow> string \<Rightarrow> format_error + string" where
  "format v out =
     (let out1 = (case name v of Some n \<Rightarrow> out @ n @ '' '' | None \<Rightarrow> out) in
      case version v of
        Some ver \<Rightarrow> Inr (out1 @ c_str (ident_bytes (ident v)) @ '':'' @ format_int (sint ver))
      | None \<Rightarrow>
          (case short_name v of
             Some s \<Rightarrow> Inr (out1 @ s)
           | None \<Rightarrow> Inl NullString))"

subsection \<open>The document and its extensible lump table\<close>

text \<open>
  Modelled from the spec: \<^verbatim>\<open>bspxentry_t\<close> comes from \<^verbatim>\<open>bspxfile.hh\<close> and the structural
  variants \<^verbatim>\<open>mbsp_t\<close>, \<^verbatim>\<open>bsp29_t\<close>, \<^verbatim>\<open>bsp2rmq_t\<close>, \<^verbatim>\<open>bsp2_t\<close>, \<^verbatim>\<open>q2bsp_t\<close> and \<^verbatim>\<open>q2bsp_qbism_t\<close>
  from the per-format headers; none of them is among the sources at hand. The
  specification describes an entry of the extensible lump table as "an owned raw byte
  buffer with explicit length": the pointer and the size that \<^verbatim>\<open>transfer\<close> builds it
  from. The structural variants are left unspecified.
\<close>

record bspxentry_t =
  lumpdata :: pointer
  lumpsize :: size_t

typedecl mbsp_t
typedecl bsp29_t
typedecl bsp2rmq_t
typedecl bsp2_t
typedecl q2bsp_t
typedecl q2bsp_qbism_t

text \<open>
  \<^verbatim>\<open>std::variant<std::monostate, mbsp_t, bsp29_t, bsp2rmq_t, bsp2_t, q2bsp_t, q2bsp_qbism_t>\<close>:
  one constructor for each alternative, in the order of the declaration. \<open>index\<close> is
  \<^verbatim>\<open>std::variant::index\<close>, the position of the alternative held.
\<close>

datatype bsp_variant =
    Monostate
  | Mbsp mbsp_t
  | Bsp29 bsp29_t
  | Bsp2rmq bsp2rmq_t
  | Bsp2 bsp2_t
  | Q2bsp q2bsp_t
  | Q2bsp_qbism q2bsp_qbism_t

fun index :: "bsp_variant \<Rightarrow> nat" where
  "index Monostate = 0"
| "index (Mbsp b) = 1"
| "index (Bsp29 b) = 2"
| "index (Bsp2rmq b) = 3"
| "index (Bsp2 b) = 4"
| "index (Q2bsp b) = 5"
| "index (Q2bsp_qbism b) = 6"

text \<open>
  \<^verbatim>\<open>struct bspdata_t\<close>; \<open>bspx_t\<close> is its unnamed member struct \<^verbatim>\<open>bspx\<close>, whose
  \<^verbatim>\<open>std::unordered_map<std::string, bspxentry_t>\<close> is a map from names to entries.
\<close>

record bspx_t =
  entries :: "string \<rightharpoonup> bspxentry_t"

record bspdata_t =
  version :: pointer
  loadversion :: pointer
  bsp :: bsp_variant
  bspx :: bspx_t

text \<open>
  The struct has no constructor of its own. A freshly constructed object gets the
  default construction of its members: the variant holds its first alternative, the map
  is empty, and the two raw pointers are whatever the kind of initialisation leaves
  there (null when value-initialised, unspecified otherwise), here the two parameters.
\<close>

definition bspdata_t_new :: "pointer \<Rightarrow> pointer \<Rightarrow> bspdata_t" where
  "bspdata_t_new v lv =
     \<lparr>version = v, loadversion = lv, bsp = Monostate, bspx = \<lparr>entries = Map.empty\<rparr>\<rparr>"

text \<open>
  \<^verbatim>\<open>bspx.transfer(xname, xdata, xsize)\<close>: \<^verbatim>\<open>insert_or_assign\<close> of the entry built from the
  pointer and the size, then \<^verbatim>\<open>xdata = nullptr\<close>. \<^verbatim>\<open>xdata\<close> is passed by reference: the
  second component of the result is what the caller's variable holds afterwards.
  \<open>bspdata_transfer\<close> is the same call on the table of a document.
\<close>

definition transfer :: "bspx_t \<Rightarrow> string \<Rightarrow> pointer \<Rightarrow> size_t \<Rightarrow> bspx_t \<times> pointer" where
  "transfer this xname xdata xsize =
     (this\<lparr>entries := (entries this)(xname \<mapsto> \<lparr>lumpdata = xdata, lumpsize = xsize\<rparr>)\<rparr>, Null)"

definition bspdata_transfer ::
    "bspdata_t \<Rightarrow> string \<Rightarrow> pointer \<Rightarrow> size_t \<Rightarrow> bspdata_t \<times> pointer" where
  "bspdata_transfer d xname xdata xsize =
     (case transfer (bspx d) xname xdata xsize of
        (table, xdata') \<Rightarrow> (d\<lparr>bspx := table\<rparr>, xdata'))"

subsection \<open>Sample inputs\<close>

text \<open>
  A small implementation of the game contract and a content-flags value per native
  code, on which the theorems below are evaluated. The contract reads the native code
  and, for same-type clipping, the override.
\<close>

definition example_game :: "unit gamedef_t" where
  "example_game =
     \<lparr>game_id = GAME_QUAKE_II, has_rgb_lightmap = True, allow_contented_bmodels = True,
      contents_are_detail_solid = (\<lambda>c. contentflags_t.native c = 3),
      contents_are_detail_fence = (\<lambda>c. contentflags_t.native c = 4),
      contents_are_detail_illusionary = (\<lambda>c. contentflags_t.native c = 5),
      contents_clip_same_type =
        (\<lambda>self other. contentflags_t.native self = contentflags_t.native other \<and>
           clips_same_type self \<noteq> Some False),
      contents_are_solid = (\<lambda>c. contentflags_t.native c = 1)\<rparr>"

definition example_contents :: "int32_t \<Rightarrow> unit contentflags_t" where
  "example_contents n =
     \<lparr>contentflags_t.native = n, game_data = (), mirror_inside = None, clips_same_type = None,
      illusionary_visblocker = False\<rparr>"

section \<open>Surface flags: \<^verbatim>\<open>needs_write\<close>\<close>

lemma vec_to_bool_iff: "vec_to_bool x \<longleftrightarrow> x \<noteq> Fin 0"
  by (cases x) simp_all

lemma emptyExact_iff: "emptyExact v \<longleftrightarrow> v = (0, 0, 0)"
  by (cases v) (simp add: emptyExact_def)

text \<open>
  C1, as stated, at a concrete value: a value-initialised \<^verbatim>\<open>surfflags_t\<close> whose \<open>native\<close>
  is set to 1 differs from the default in a field, and \<^verbatim>\<open>needs_write\<close> is false on it.
\<close>

theorem needs_write_native_counterexample:
  "\<not> needs_write (surfflags_default\<lparr>native := 1\<rparr>) \<and>
   native (surfflags_default\<lparr>native := 1\<rparr>) \<noteq> native surfflags_default"
  by (simp add: needs_write_def surfflags_default_def emptyExact_def)

text \<open>
  C1 (amended): \<^verbatim>\<open>needs_write\<close> is true exactly when one of the eleven fields
  \<open>no_dirt\<close>, \<open>no_shadow\<close>, \<open>no_bounce\<close>, \<open>no_minlight\<close>, \<open>no_expand\<close>, \<open>light_ignore\<close>,
  \<open>phong_angle\<close>, \<open>phong_angle_concave\<close>, \<open>minlight\<close>, \<open>minlight_color\<close>, \<open>light_alpha\<close>
  differs from its default (a floating-point field differs when it does not compare
  equal to zero). It is false on the default value, and it does not read \<open>native\<close>,
  \<open>is_skip\<close> or \<open>is_hint\<close>: changing them never changes the result.
\<close>

theorem needs_write_iff_extended_field_set:
  "(needs_write s \<longleftrightarrow>
      no_dirt s \<noteq> no_dirt surfflags_default \<or>
      no_shadow s \<noteq> no_shadow surfflags_default \<or>
      no_bounce s \<noteq> no_bounce surfflags_default \<or>
      no_minlight s \<noteq> no_minlight surfflags_default \<or>
      no_expand s \<noteq> no_expand surfflags_default \<or>
      light_ignore s \<noteq> light_ignore surfflags_default \<or>
      phong_angle s \<noteq> phong_angle surfflags_default \<or>
      phong_angle_concave s \<noteq> phong_angle_concave surfflags_default \<or>
      minlight s \<noteq> minlight surfflags_default \<or>
      minlight_color s \<noteq> minlight_color surfflags_default \<or>
      light_alpha s \<noteq> light_alpha surfflags_default) \<and>
   \<not> needs_write surfflags_default \<and>
   needs_write (s\<lparr>native := n, is_skip := k, is_hint := i\<rparr>) = needs_write s"
  by (simp add: needs_write_def surfflags_default_def vec_to_bool_iff emptyExact_iff)

text \<open>
  The theorem at concrete values: one changed flag, colour, opacity or angle makes
  \<^verbatim>\<open>needs_write\<close> true; changes of the three unread fields leave it false.
\<close>

theorem needs_write_witness:
  "needs_write (surfflags_default\<lparr>no_dirt := True\<rparr>) \<and>
   needs_write (surfflags_default\<lparr>minlight_color := (0, 0, 1)\<rparr>) \<and>
   needs_write (surfflags_default\<lparr>light_alpha := Fin 0.5\<rparr>) \<and>
   needs_write (surfflags_default\<lparr>phong_angle := NaN\<rparr>) \<and>
   \<not> needs_write (surfflags_default\<lparr>native := 7, is_skip := True, is_hint := True\<rparr>)"
  using needs_write_iff_extended_field_set [where s = "surfflags_default\<lparr>no_dirt := True\<rparr>"]
    needs_write_iff_extended_field_set
      [where s = "surfflags_default\<lparr>minlight_color := (0, 0, 1)\<rparr>"]
    needs_write_iff_extended_field_set [where s = "surfflags_default\<lparr>light_alpha := Fin 0.5\<rparr>"]
    needs_write_iff_extended_field_set [where s = "surfflags_default\<lparr>phong_angle := NaN\<rparr>"]
    needs_write_iff_extended_field_set
      [where s = surfflags_default and n = 7 and k = True and i = True]
  by (simp add: surfflags_default_def)

section \<open>Surface flags: the sort order\<close>

text \<open>
  One step of the tuple comparison agrees with one step of the lexicographic order when
  the elements compared are comparable: neither below the other only if equal.
\<close>

lemma tuple_less_eq_lex_less:
  assumes "\<not> lt a a" and "\<not> lt a b \<Longrightarrow> \<not> lt b a \<Longrightarrow> a = b" and "rest x y = rest' x y"
  shows "tuple_less lt rest (a, x) (b, y) = lex_less lt rest' (a, x) (b, y)"
  using assms unfolding tuple_less_def lex_less_def by auto

lemma int32_less_irrefl: "\<not> int32_less a a"
  by (simp add: int32_less_def)

lemma int32_less_total: "\<not> int32_less a b \<Longrightarrow> \<not> int32_less b a \<Longrightarrow> a = b"
  by (simp add: int32_less_def word_eq_iff_signed [where ?'a = int])

lemma int32_less_trans: "int32_less a b \<Longrightarrow> int32_less b c \<Longrightarrow> int32_less a c"
  by (simp add: int32_less_def)

lemma bool_less_irrefl: "\<not> bool_less a a"
  by (simp add: bool_less_def)

lemma bool_less_total: "\<not> bool_less a b \<Longrightarrow> \<not> bool_less b a \<Longrightarrow> a = b"
  by (auto simp add: bool_less_def)

lemma bool_less_trans: "bool_less a b \<Longrightarrow> bool_less b c \<Longrightarrow> bool_less a c"
  by (auto simp add: bool_less_def)

lemma vec_less_irrefl: "\<not> vec_less a a"
  by (cases a) simp_all

lemma vec_less_total: "a \<noteq> NaN \<Longrightarrow> b \<noteq> NaN \<Longrightarrow> \<not> vec_less a b \<Longrightarrow> \<not> vec_less b a \<Longrightarrow> a = b"
  by (cases a; cases b) simp_all

lemma vec_less_trans: "vec_less a b \<Longrightarrow> vec_less b c \<Longrightarrow> vec_less a c"
  by (cases a; cases b; cases c) simp_all

lemma qvec3b_less_irrefl: "\<not> qvec3b_less a a"
  by (cases a) (simp add: qvec3b_less_def)

lemma qvec3b_less_total: "\<not> qvec3b_less a b \<Longrightarrow> \<not> qvec3b_less b a \<Longrightarrow> a = b"
  by (cases a; cases b) (auto simp add: qvec3b_less_def)

lemma qvec3b_less_trans: "qvec3b_less a b \<Longrightarrow> qvec3b_less b c \<Longrightarrow> qvec3b_less a c"
  by (cases a; cases b; cases c) (auto simp add: qvec3b_less_def)

lemma lex_less_irreflp_on:
  assumes "irreflp_on A lt" and "irreflp_on B rest"
  shows "irreflp_on (A \<times> B) (lex_less lt rest)"
  using assms by (auto simp: irreflp_on_def lex_less_def)

lemma lex_less_transp_on:
  assumes "transp_on A lt" and "transp_on B rest"
  shows "transp_on (A \<times> B) (lex_less lt rest)"
proof (rule transp_onI)
  fix t u w
  assume "t \<in> A \<times> B" "u \<in> A \<times> B" "w \<in> A \<times> B"
    and "lex_less lt rest t u" "lex_less lt rest u w"
  then show "lex_less lt rest t w"
    using transp_onD [OF assms(1), of "fst t" "fst u" "fst w"]
      transp_onD [OF assms(2), of "snd t" "snd u" "snd w"]
    by (auto simp: lex_less_def)
qed

lemma lex_less_totalp_on:
  assumes "totalp_on A lt" and "totalp_on B rest"
  shows "totalp_on (A \<times> B) (lex_less lt rest)"
proof (rule totalp_onI)
  fix t u
  assume "t \<in> A \<times> B" "u \<in> A \<times> B" "t \<noteq> u"
  then show "lex_less lt rest t u \<or> lex_less lt rest u t"
    using totalp_onD [OF assms(1), of "fst t" "fst u"]
      totalp_onD [OF assms(2), of "snd t" "snd u"]
    by (cases t; cases u) (auto simp: lex_less_def)
qed


lemma as_tuple_inject: "as_tuple a = as_tuple b \<longleftrightarrow> a = b"
  by (cases a; cases b) (simp add: as_tuple_def)

lemma tuple_less_fields:
  "rest x y = rest' x y \<Longrightarrow>
     tuple_less int32_less rest (i, x) (j, y) = lex_less int32_less rest' (i, x) (j, y)"
  "rest x y = rest' x y \<Longrightarrow>
     tuple_less bool_less rest (p, x) (q, y) = lex_less bool_less rest' (p, x) (q, y)"
  "rest x y = rest' x y \<Longrightarrow>
     tuple_less qvec3b_less rest (c, x) (d, y) = lex_less qvec3b_less rest' (c, x) (d, y)"
  "v \<noteq> NaN \<Longrightarrow> w \<noteq> NaN \<Longrightarrow> rest x y = rest' x y \<Longrightarrow>
     tuple_less vec_less rest (v, x) (w, y) = lex_less vec_less rest' (v, x) (w, y)"
  by (rule tuple_less_eq_lex_less, rule int32_less_irrefl, erule (1) int32_less_total, assumption,
      rule tuple_less_eq_lex_less, rule bool_less_irrefl, erule (1) bool_less_total, assumption,
      rule tuple_less_eq_lex_less, rule qvec3b_less_irrefl, erule (1) qvec3b_less_total, assumption,
      rule tuple_less_eq_lex_less, rule vec_less_irrefl, erule (3) vec_less_total, assumption)

lemma surf_less_eq_lexicographic:
  assumes "no_nan a" and "no_nan b"
  shows "surf_less a b = spec_lexicographic_less a b"
  unfolding surf_less_def spec_lexicographic_less_def surf_tuple_less_def as_tuple_def
  using assms unfolding no_nan_def
  by (intro tuple_less_fields) (simp_all add: tuple_end_less_def)

lemma irreflp_on_fields:
  "irreflp_on A int32_less" "irreflp_on B bool_less" "irreflp_on C vec_less"
  "irreflp_on D qvec3b_less" "irreflp_on E (\<lambda>t u. False)"
  by (simp_all add: irreflp_on_def int32_less_irrefl bool_less_irrefl vec_less_irrefl
        qvec3b_less_irrefl)

lemma transp_on_fields:
  "transp_on A int32_less" "transp_on B bool_less" "transp_on C vec_less"
  "transp_on D qvec3b_less" "transp_on E (\<lambda>t u. False)"
  by (auto simp add: transp_on_def intro: int32_less_trans bool_less_trans vec_less_trans
        qvec3b_less_trans)

lemma totalp_on_fields:
  "totalp_on A int32_less" "totalp_on B bool_less" "totalp_on (- {NaN}) vec_less"
  "totalp_on D qvec3b_less" "totalp_on (E :: unit set) (\<lambda>t u. False)"
  by (auto simp add: totalp_on_def dest: int32_less_total bool_less_total vec_less_total
        qvec3b_less_total)

lemma surf_lex_order:
  fixes L :: "surf_tuple \<Rightarrow> surf_tuple \<Rightarrow> bool" and D :: "surf_tuple set"
  defines "L \<equiv> lex_less int32_less (lex_less bool_less (lex_less bool_less
       (lex_less bool_less (lex_less bool_less (lex_less bool_less
         (lex_less bool_less (lex_less bool_less (lex_less bool_less
           (lex_less vec_less (lex_less vec_less (lex_less vec_less
             (lex_less qvec3b_less (lex_less vec_less (\<lambda>t u. False))))))))))))))"
    and "D \<equiv> UNIV \<times> UNIV \<times> UNIV \<times> UNIV \<times> UNIV \<times> UNIV \<times> UNIV \<times> UNIV \<times> UNIV \<times>
       (- {NaN}) \<times> (- {NaN}) \<times> (- {NaN}) \<times> UNIV \<times> (- {NaN}) \<times> UNIV"
  shows "irreflp_on D L" and "transp_on D L" and "totalp_on D L"
  unfolding L_def D_def
  by (intro lex_less_irreflp_on irreflp_on_fields, intro lex_less_transp_on transp_on_fields,
      intro lex_less_totalp_on totalp_on_fields)


lemma as_tuple_in_domain:
  "no_nan a \<Longrightarrow> as_tuple a \<in> UNIV \<times> UNIV \<times> UNIV \<times> UNIV \<times> UNIV \<times> UNIV \<times> UNIV \<times> UNIV \<times> UNIV \<times>
       (- {NaN}) \<times> (- {NaN}) \<times> (- {NaN}) \<times> UNIV \<times> (- {NaN}) \<times> UNIV"
  by (simp add: no_nan_def as_tuple_def)

text \<open>
  C3, as stated, at concrete values: the default value and the default value with a
  \<open>phong_angle\<close> that is not a number. Neither is below the other, and their
  \<open>phong_angle\<close> fields are not equal.
\<close>

theorem surf_less_nan_counterexample:
  "\<not> surf_less (surfflags_default\<lparr>phong_angle := NaN\<rparr>) surfflags_default \<and>
   \<not> surf_less surfflags_default (surfflags_default\<lparr>phong_angle := NaN\<rparr>) \<and>
   phong_angle (surfflags_default\<lparr>phong_angle := NaN\<rparr>) \<noteq> phong_angle surfflags_default"
  by (simp add: surf_less_def surf_tuple_less_def as_tuple_def tuple_less_def tuple_end_less_def
        surfflags_default_def int32_less_def bool_less_def qvec3b_less_def)

text \<open>
  C3 (amended): on surface-flags values whose floating-point fields are numbers,
  \<^verbatim>\<open>operator<\<close> is a strict total order on the full field tuple. For two such values
  exactly one of \<open>a < b\<close>, \<open>b < a\<close> and equality of all fourteen fields holds; the order is
  the lexicographic order of the tuple; \<^verbatim>\<open>operator>\<close> is its converse; it is transitive.
\<close>

theorem surf_less_strict_total_order:
  assumes "no_nan a" and "no_nan b"
  shows "((surf_less a b \<and> \<not> surf_less b a \<and> a \<noteq> b) \<or>
          (\<not> surf_less a b \<and> surf_less b a \<and> a \<noteq> b) \<or>
          (\<not> surf_less a b \<and> \<not> surf_less b a \<and> a = b)) \<and>
         (a = b \<longleftrightarrow> as_tuple a = as_tuple b) \<and>
         surf_less a b = spec_lexicographic_less a b \<and>
         surf_greater a b = surf_less b a \<and>
         (\<forall>c. no_nan c \<and> surf_less a b \<and> surf_less b c \<longrightarrow> surf_less a c)"
proof -
  note lex = surf_less_eq_lexicographic
  note dom = as_tuple_in_domain
  have irr: "\<not> spec_lexicographic_less x x" if "no_nan x" for x
    using irreflp_onD [OF surf_lex_order(1) dom [OF that]]
    by (simp add: spec_lexicographic_less_def)
  have tot: "spec_lexicographic_less x y \<or> spec_lexicographic_less y x"
    if "no_nan x" "no_nan y" "x \<noteq> y" for x y
    using totalp_onD [OF surf_lex_order(3) dom [OF that(1)] dom [OF that(2)]] that(3)
    by (simp add: spec_lexicographic_less_def as_tuple_inject)
  have trans: "spec_lexicographic_less x z"
    if "no_nan x" "no_nan y" "no_nan z" "spec_lexicographic_less x y" "spec_lexicographic_less y z"
    for x y z
    using transp_onD [OF surf_lex_order(2) dom [OF that(1)] dom [OF that(2)] dom [OF that(3)]]
      that(4,5)
    by (simp add: spec_lexicographic_less_def)
  have asym: "\<not> (spec_lexicographic_less a b \<and> spec_lexicographic_less b a)"
    using trans [of a b a] irr [of a] assms by blast
  have one: "(surf_less a b \<and> \<not> surf_less b a \<and> a \<noteq> b) \<or>
          (\<not> surf_less a b \<and> surf_less b a \<and> a \<noteq> b) \<or>
          (\<not> surf_less a b \<and> \<not> surf_less b a \<and> a = b)"
    using asym tot [of a b] irr [of a] assms
    by (auto simp add: lex [OF assms] lex [OF assms(2) assms(1)])
  have tr: "\<forall>c. no_nan c \<and> surf_less a b \<and> surf_less b c \<longrightarrow> surf_less a c"
    using trans [of a b] assms by (auto simp add: lex)
  show ?thesis
    using one tr lex [OF assms]
    by (simp add: as_tuple_inject surf_greater_def surf_less_def)
qed

text \<open>
  The theorem at the default value and the default value with \<open>light_alpha\<close> one half.
\<close>

theorem surf_less_witness:
  "surf_less surfflags_default (surfflags_default\<lparr>light_alpha := Fin 0.5\<rparr>) \<and>
   \<not> surf_less (surfflags_default\<lparr>light_alpha := Fin 0.5\<rparr>) surfflags_default \<and>
   surf_greater (surfflags_default\<lparr>light_alpha := Fin 0.5\<rparr>) surfflags_default \<and>
   spec_lexicographic_less surfflags_default (surfflags_default\<lparr>light_alpha := Fin 0.5\<rparr>)"
proof -
  have a: "no_nan surfflags_default"
    by (simp add: no_nan_def surfflags_default_def)
  have b: "no_nan (surfflags_default\<lparr>light_alpha := Fin 0.5\<rparr>)"
    by (simp add: no_nan_def surfflags_default_def)
  have l: "spec_lexicographic_less surfflags_default (surfflags_default\<lparr>light_alpha := Fin 0.5\<rparr>)"
    by (simp add: spec_lexicographic_less_def as_tuple_def lex_less_def surfflags_default_def
        int32_less_def bool_less_def qvec3b_less_def)
  show ?thesis
    using surf_less_strict_total_order [OF a b] surf_less_strict_total_order [OF b a] l
    by auto
qed


section \<open>Display formatting of a format descriptor\<close>

text \<open>
  The four characters are the bytes of the identifier, lowest first: the arithmetic
  shift and the mask select the same byte as a logical shift.
\<close>

lemma mask_0xFF: "(0xFF :: int32_t) = mask 8"
  by (simp add: mask_eq_exp_minus_1)

lemma ident_byte_shift:
  "ucast (signed_drop_bit 8 i AND 0xFF) = (ucast (drop_bit 8 i) :: uint8_t)"
  "ucast (signed_drop_bit 16 i AND 0xFF) = (ucast (drop_bit 16 i) :: uint8_t)"
  "ucast (signed_drop_bit 24 i AND 0xFF) = (ucast (drop_bit 24 i) :: uint8_t)"
  "ucast (i AND 0xFF) = (ucast i :: uint8_t)"
  for i :: int32_t
  unfolding mask_0xFF
  by (rule bit_word_eqI; auto simp add: bit_simps)+

lemma ident_byte_signed_shift:
  "ucast (signed_drop_bit 8 i) = (ucast (drop_bit 8 i) :: uint8_t)"
  "ucast (signed_drop_bit 16 i) = (ucast (drop_bit 16 i) :: uint8_t)"
  "ucast (signed_drop_bit 24 i) = (ucast (drop_bit 24 i) :: uint8_t)"
  for i :: int32_t
  by (rule bit_word_eqI; auto simp add: bit_simps)+

lemma ident_bytes_little_endian:
  "ident_bytes i = map (\<lambda>k. ucast (drop_bit (8 * k) i)) [0, 1, 2, 3]"
  by (simp add: ident_bytes_def ident_byte_shift ident_byte_signed_shift)

lemma c_str_no_zero: "0 \<notin> set bs \<Longrightarrow> c_str bs = map (\<lambda>b. char_of (unat b)) bs"
  by (induction bs) (auto simp add: c_str_def)

text \<open>
  C4, as stated, at a concrete descriptor: identifier \<^verbatim>\<open>IBSP\<close>, version 38, short name
  \<^verbatim>\<open>q2bsp\<close> and display name \<^verbatim>\<open>Quake II BSP\<close>. The rendering is
  \<^verbatim>\<open>Quake II BSP IBSP:38\<close>, not \<^verbatim>\<open>IBSP:38\<close>: the display name and a space come first.
\<close>

theorem format_name_prefix_counterexample:
  "format \<lparr>ident = 0x50534249, version = Some 38, short_name = Some ''q2bsp'',
      name = Some ''Quake II BSP'', lumps = [], game = Null, extended_limits = Null\<rparr> []
     = Inr ''Quake II BSP IBSP:38'' \<and>
   format \<lparr>ident = 0x50534249, version = Some 38, short_name = Some ''q2bsp'',
      name = Some ''Quake II BSP'', lumps = [], game = Null, extended_limits = Null\<rparr> []
     \<noteq> Inr ''IBSP:38''"
  by code_simp

text \<open>
  C4 (amended): the display formatting first writes the display name and a space when
  the descriptor has a display name (\<^verbatim>\<open>name\<close> is not null), and nothing otherwise. After
  that a version-discriminated format is rendered as its identifier letters, a colon and
  the version number in decimal, and a format without a sub-version as its short-name
  token; nothing else is written. The identifier letters are the four bytes of the
  identifier, lowest first, up to the first zero byte: all four when none is zero. A
  format without a sub-version whose short name is null makes the formatting fail.
\<close>

theorem format_renders:
  "(bspversion_t.version v = Some ver \<and> bspversion_t.name v = None \<longrightarrow>
      format v out = Inr (out @ c_str (ident_bytes (ident v)) @ '':'' @ format_int (sint ver))) \<and>
   (bspversion_t.version v = Some ver \<and> bspversion_t.name v = Some n \<longrightarrow>
      format v out =
        Inr (out @ n @ '' '' @ c_str (ident_bytes (ident v)) @ '':'' @ format_int (sint ver))) \<and>
   (bspversion_t.version v = None \<and> short_name v = Some s \<and> bspversion_t.name v = None \<longrightarrow>
      format v out = Inr (out @ s)) \<and>
   (bspversion_t.version v = None \<and> short_name v = Some s \<and> bspversion_t.name v = Some n \<longrightarrow>
      format v out = Inr (out @ n @ '' '' @ s)) \<and>
   (bspversion_t.version v = None \<and> short_name v = None \<longrightarrow> format v out = Inl NullString) \<and>
   c_str (ident_bytes (ident v)) =
     map (\<lambda>b. char_of (unat b))
       (takeWhile (\<lambda>b. b \<noteq> 0) (map (\<lambda>k. ucast (drop_bit (8 * k) (ident v)) :: uint8_t) [0, 1, 2, 3])) \<and>
   (0 \<notin> set (ident_bytes (ident v)) \<longrightarrow> length (c_str (ident_bytes (ident v))) = 4)"
proof -
  have "length (c_str (ident_bytes (ident v))) = 4" if "0 \<notin> set (ident_bytes (ident v))"
    using c_str_no_zero [OF that] by (simp add: ident_bytes_def)
  moreover have "c_str (ident_bytes (ident v)) =
     map (\<lambda>b. char_of (unat b))
       (takeWhile (\<lambda>b. b \<noteq> 0) (map (\<lambda>k. ucast (drop_bit (8 * k) (ident v)) :: uint8_t) [0, 1, 2, 3]))"
    unfolding c_str_def ident_bytes_little_endian by (rule refl)
  ultimately show ?thesis
    by (simp add: format_def)
qed

text \<open>
  The theorem at the descriptor above with and without its display name, and at a
  descriptor without a sub-version (identifier 29, short name \<^verbatim>\<open>bsp29\<close>).
\<close>

theorem format_witness:
  "format \<lparr>ident = 0x50534249, version = Some 38, short_name = Some ''q2bsp'',
      name = None, lumps = [], game = Null, extended_limits = Null\<rparr> [] = Inr ''IBSP:38'' \<and>
   format \<lparr>ident = 0x50534249, version = Some 38, short_name = Some ''q2bsp'',
      name = Some ''Quake II BSP'', lumps = [], game = Null, extended_limits = Null\<rparr> []
     = Inr ''Quake II BSP IBSP:38'' \<and>
   format \<lparr>ident = 29, version = None, short_name = Some ''bsp29'',
      name = None, lumps = [], game = Null, extended_limits = Null\<rparr> [] = Inr ''bsp29'' \<and>
   format \<lparr>ident = 29, version = None, short_name = Some ''bsp29'',
      name = Some ''Quake BSP'', lumps = [], game = Null, extended_limits = Null\<rparr> []
     = Inr ''Quake BSP bsp29'' \<and>
   format \<lparr>ident = 29, version = None, short_name = None,
      name = Some ''Quake BSP'', lumps = [], game = Null, extended_limits = Null\<rparr> []
     = Inl NullString \<and>
   length (c_str (ident_bytes 0x50534249)) = 4"
proof -
  let ?q2 = "\<lparr>ident = 0x50534249, version = Some 38, short_name = Some ''q2bsp'',
      name = None, lumps = [], game = Null, extended_limits = Null\<rparr>"
  let ?q1 = "\<lparr>ident = 29, version = None, short_name = Some ''bsp29'',
      name = None, lumps = [], game = Null, extended_limits = Null\<rparr>"
  have i: "c_str (ident_bytes 0x50534249) = ''IBSP''"
    by code_simp
  have z: "0 \<notin> set (ident_bytes 0x50534249)"
    by code_simp
  have d: "format_int 38 = ''38''"
    by code_simp
  have a1: "format ?q2 [] = Inr ''IBSP:38''"
    using format_renders [where v = ?q2 and ver = 38 and out = "[]", THEN conjunct1]
    by (simp add: i d)
  have a2: "format (?q2\<lparr>name := Some ''Quake II BSP''\<rparr>) [] = Inr ''Quake II BSP IBSP:38''"
    using format_renders [where v = "?q2\<lparr>name := Some ''Quake II BSP''\<rparr>" and ver = 38
        and n = "''Quake II BSP''" and out = "[]", THEN conjunct2, THEN conjunct1]
    by (simp add: i d)
  have a3: "format ?q1 [] = Inr ''bsp29''"
    using format_renders [where v = ?q1 and s = "''bsp29''" and out = "[]",
        THEN conjunct2, THEN conjunct2, THEN conjunct1]
    by simp
  have a4: "format (?q1\<lparr>name := Some ''Quake BSP''\<rparr>) [] = Inr ''Quake BSP bsp29''"
    using format_renders [where v = "?q1\<lparr>name := Some ''Quake BSP''\<rparr>" and s = "''bsp29''"
        and n = "''Quake BSP''" and out = "[]",
        THEN conjunct2, THEN conjunct2, THEN conjunct2, THEN conjunct1]
    by simp
  have a5: "format (?q1\<lparr>name := Some ''Quake BSP'', short_name := None\<rparr>) [] = Inl NullString"
    using format_renders [where v = "?q1\<lparr>name := Some ''Quake BSP'', short_name := None\<rparr>"
        and out = "[]", THEN conjunct2, THEN conjunct2, THEN conjunct2, THEN conjunct2,
        THEN conjunct1]
    by simp
  have a6: "length (c_str (ident_bytes 0x50534249)) = 4"
    using format_renders [where v = ?q2, THEN conjunct2, THEN conjunct2, THEN conjunct2,
        THEN conjunct2, THEN conjunct2, THEN conjunct2] z
    by simp
  show ?thesis
    using a1 a2 a3 a4 a5 a6 by simp
qed

section \<open>The extensible lump table: \<^verbatim>\<open>transfer\<close>\<close>

text \<open>
  C5: after \<^verbatim>\<open>transfer(name, pointer, size)\<close> the table maps the name to an entry that
  holds exactly that pointer and that size, whatever it held under the name before;
  every other name keeps its entry, so the names of the table are the old ones and this
  one; and the caller's pointer variable is null. This holds for every pointer, null or
  not.
\<close>

theorem transfer_stores_entry:
  "entries (fst (transfer t n p sz)) n = Some \<lparr>lumpdata = p, lumpsize = sz\<rparr> \<and>
   (\<forall>m. m \<noteq> n \<longrightarrow> entries (fst (transfer t n p sz)) m = entries t m) \<and>
   dom (entries (fst (transfer t n p sz))) = insert n (dom (entries t)) \<and>
   snd (transfer t n p sz) = Null"
  by (simp add: transfer_def)

text \<open>
  The theorem on an empty table, on a table that already has the name, and on a table
  that has another name.
\<close>

theorem transfer_witness:
  "entries (fst (transfer \<lparr>entries = Map.empty\<rparr> ''RGBLIGHTING'' (Ptr 4096) 12))
      ''RGBLIGHTING'' = Some \<lparr>lumpdata = Ptr 4096, lumpsize = 12\<rparr> \<and>
   snd (transfer \<lparr>entries = Map.empty\<rparr> ''RGBLIGHTING'' (Ptr 4096) 12) = Null \<and>
   entries (fst (transfer \<lparr>entries = [''RGBLIGHTING'' \<mapsto> \<lparr>lumpdata = Ptr 64, lumpsize = 3\<rparr>]\<rparr>
      ''RGBLIGHTING'' (Ptr 4096) 12)) ''RGBLIGHTING''
     = Some \<lparr>lumpdata = Ptr 4096, lumpsize = 12\<rparr> \<and>
   dom (entries (fst (transfer
      \<lparr>entries = [''RGBLIGHTING'' \<mapsto> \<lparr>lumpdata = Ptr 64, lumpsize = 3\<rparr>]\<rparr>
      ''RGBLIGHTING'' (Ptr 4096) 12))) = {''RGBLIGHTING''} \<and>
   entries (fst (transfer \<lparr>entries = [''RGBLIGHTING'' \<mapsto> \<lparr>lumpdata = Ptr 64, lumpsize = 3\<rparr>]\<rparr>
      ''LMSHIFT'' (Ptr 4096) 12)) ''RGBLIGHTING'' = Some \<lparr>lumpdata = Ptr 64, lumpsize = 3\<rparr>"
  using transfer_stores_entry [of "\<lparr>entries = Map.empty\<rparr>" "''RGBLIGHTING''" "Ptr 4096" 12]
    transfer_stores_entry
      [of "\<lparr>entries = [''RGBLIGHTING'' \<mapsto> \<lparr>lumpdata = Ptr 64, lumpsize = 3\<rparr>]\<rparr>"
        "''RGBLIGHTING''" "Ptr 4096" 12]
    transfer_stores_entry
      [of "\<lparr>entries = [''RGBLIGHTING'' \<mapsto> \<lparr>lumpdata = Ptr 64, lumpsize = 3\<rparr>]\<rparr>"
        "''LMSHIFT''" "Ptr 4096" 12]
  by simp

section \<open>Content flags: derived queries and setters\<close>

text \<open>
  C7: \<^verbatim>\<open>is_any_solid\<close> is true exactly when \<^verbatim>\<open>is_solid\<close> or \<^verbatim>\<open>is_detail_solid\<close> is, and it
  depends on the value and the game through these two answers only: wherever the two
  answers agree, so does \<^verbatim>\<open>is_any_solid\<close>.
\<close>

theorem is_any_solid_is_solid_or_detail_solid:
  "(is_any_solid g c \<longleftrightarrow> is_solid g c \<or> is_detail_solid g c) \<and>
   (\<forall>g' c'. is_solid g' c' = is_solid g c \<and> is_detail_solid g' c' = is_detail_solid g c \<longrightarrow>
      is_any_solid g' c' = is_any_solid g c)"
  by (simp add: is_any_solid_def)

text \<open>
  The theorem on the sample game: a solid value, a detail-solid value, a detail-fence
  value, and two values that differ in a field the two queries do not read.
\<close>

theorem is_any_solid_witness:
  "is_any_solid example_game (example_contents 1) \<and>
   is_any_solid example_game (example_contents 3) \<and>
   \<not> is_any_solid example_game (example_contents 4) \<and>
   is_any_solid example_game ((example_contents 3)\<lparr>illusionary_visblocker := True\<rparr>)
     = is_any_solid example_game (example_contents 3)"
proof -
  have s: "is_solid example_game (example_contents n) \<longleftrightarrow> n = 1" for n
    by (simp add: is_solid_def example_game_def example_contents_def)
  have d: "is_detail_solid example_game (example_contents n) \<longleftrightarrow> n = 3" for n
    by (simp add: is_detail_solid_def example_game_def example_contents_def)
  have s': "\<not> is_solid example_game ((example_contents 3)\<lparr>illusionary_visblocker := True\<rparr>)"
    by (simp add: is_solid_def example_game_def example_contents_def)
  have d': "is_detail_solid example_game ((example_contents 3)\<lparr>illusionary_visblocker := True\<rparr>)"
    by (simp add: is_detail_solid_def example_game_def example_contents_def)
  have e: "is_any_solid example_game ((example_contents 3)\<lparr>illusionary_visblocker := True\<rparr>)
      = is_any_solid example_game (example_contents 3)"
    using is_any_solid_is_solid_or_detail_solid [of example_game "example_contents 3",
        THEN conjunct2, rule_format,
        of example_game "(example_contents 3)\<lparr>illusionary_visblocker := True\<rparr>"]
      s d s' d'
    by simp
  show ?thesis
    using is_any_solid_is_solid_or_detail_solid [of example_game "example_contents 1", THEN conjunct1]
      is_any_solid_is_solid_or_detail_solid [of example_game "example_contents 3", THEN conjunct1]
      is_any_solid_is_solid_or_detail_solid [of example_game "example_contents 4", THEN conjunct1]
      s d e
    by simp
qed

text \<open>
  C8: the one-argument \<^verbatim>\<open>will_clip_same_type\<close> is the two-argument form applied to the
  value and the value itself, and both forms return what the game's
  \<^verbatim>\<open>contents_clip_same_type\<close> returns.
\<close>

theorem will_clip_same_type_forms:
  "will_clip_same_type g c = will_clip_same_type_other g c c \<and>
   will_clip_same_type_other g c c2 = contents_clip_same_type g c c2 \<and>
   will_clip_same_type g c = contents_clip_same_type g c c"
  by (simp add: will_clip_same_type_def will_clip_same_type_other_def)

text \<open>
  The theorem on the sample game, whose \<^verbatim>\<open>contents_clip_same_type\<close> honours the override.
\<close>

theorem will_clip_same_type_witness:
  "will_clip_same_type example_game (example_contents 5) \<and>
   will_clip_same_type_other example_game (example_contents 5) (example_contents 5) \<and>
   \<not> will_clip_same_type_other example_game (example_contents 5) (example_contents 1) \<and>
   \<not> will_clip_same_type example_game ((example_contents 5)\<lparr>clips_same_type := Some False\<rparr>)"
proof -
  have k: "contents_clip_same_type example_game (example_contents n) (example_contents m)
      \<longleftrightarrow> n = m" for n m
    by (simp add: example_game_def example_contents_def)
  have k': "\<not> contents_clip_same_type example_game
      ((example_contents 5)\<lparr>clips_same_type := Some False\<rparr>)
      ((example_contents 5)\<lparr>clips_same_type := Some False\<rparr>)"
    by (simp add: example_game_def example_contents_def)
  show ?thesis
    using
      will_clip_same_type_forms [of example_game "example_contents 5" "example_contents 5",
        THEN conjunct2, THEN conjunct2]
      will_clip_same_type_forms [of example_game "example_contents 5" "example_contents 5",
        THEN conjunct2, THEN conjunct1]
      will_clip_same_type_forms [of example_game "example_contents 5" "example_contents 1",
        THEN conjunct2, THEN conjunct1]
      will_clip_same_type_forms
        [of example_game "(example_contents 5)\<lparr>clips_same_type := Some False\<rparr>"
           "example_contents 1", THEN conjunct2, THEN conjunct2]
      k k'
    by simp
qed

text \<open>
  C9: called on an object, \<^verbatim>\<open>set_mirrored(v)\<close> stores \<open>v\<close> in the \<open>mirror_inside\<close> override
  of that object and \<^verbatim>\<open>set_clips_same_type(v)\<close> stores \<open>v\<close> in its \<open>clips_same_type\<close>
  override. Every other field of the object and every other object stay as they were,
  the reference returned is the object itself, and storing "unset" differs from storing
  an explicit false.
\<close>

theorem setters_frame:
  assumes "h a = Some c"
  shows "set_mirrored h a v = Some (h(a \<mapsto> c\<lparr>mirror_inside := v\<rparr>), a) \<and>
         set_clips_same_type h a v = Some (h(a \<mapsto> c\<lparr>clips_same_type := v\<rparr>), a) \<and>
         (\<forall>h' r. set_mirrored h a v = Some (h', r) \<longrightarrow>
            r = a \<and> (\<forall>b. b \<noteq> a \<longrightarrow> h' b = h b) \<and>
            (\<exists>c'. h' a = Some c' \<and> mirror_inside c' = v \<and>
               contentflags_t.native c' = contentflags_t.native c \<and>
               game_data c' = game_data c \<and> clips_same_type c' = clips_same_type c \<and>
               illusionary_visblocker c' = illusionary_visblocker c)) \<and>
         (\<forall>h' r. set_clips_same_type h a v = Some (h', r) \<longrightarrow>
            r = a \<and> (\<forall>b. b \<noteq> a \<longrightarrow> h' b = h b) \<and>
            (\<exists>c'. h' a = Some c' \<and> clips_same_type c' = v \<and>
               contentflags_t.native c' = contentflags_t.native c \<and>
               game_data c' = game_data c \<and> mirror_inside c' = mirror_inside c \<and>
               illusionary_visblocker c' = illusionary_visblocker c)) \<and>
         set_mirrored h a None \<noteq> set_mirrored h a (Some False) \<and>
         set_clips_same_type h a None \<noteq> set_clips_same_type h a (Some False)"
proof -
  have neq: "h(a \<mapsto> x) \<noteq> h(a \<mapsto> y)" if "x \<noteq> y" for x y :: "'a contentflags_t"
    using that by (metis map_upd_eqD1)
  have m: "c\<lparr>mirror_inside := None\<rparr> \<noteq> c\<lparr>mirror_inside := Some False\<rparr>"
    by (metis contentflags_t.select_convs(3) contentflags_t.surjective
        contentflags_t.update_convs(3) option.distinct(1))
  have k: "c\<lparr>clips_same_type := None\<rparr> \<noteq> c\<lparr>clips_same_type := Some False\<rparr>"
    by (metis contentflags_t.select_convs(4) contentflags_t.surjective
        contentflags_t.update_convs(4) option.distinct(1))
  show ?thesis
    using assms neq [OF m] neq [OF k]
    by (simp add: set_mirrored_def set_clips_same_type_def)
qed

text \<open>
  The theorem on a store with one object, at address 5.
\<close>

theorem setters_witness:
  "set_mirrored [5 \<mapsto> example_contents 1] 5 (Some False)
     = Some ([5 \<mapsto> (example_contents 1)\<lparr>mirror_inside := Some False\<rparr>], 5) \<and>
   set_clips_same_type [5 \<mapsto> example_contents 1] 5 (Some True)
     = Some ([5 \<mapsto> (example_contents 1)\<lparr>clips_same_type := Some True\<rparr>], 5) \<and>
   set_mirrored [5 \<mapsto> example_contents 1] 5 None
     \<noteq> set_mirrored [5 \<mapsto> example_contents 1] 5 (Some False)"
proof -
  have h: "[5 \<mapsto> example_contents 1] (5 :: nat) = Some (example_contents 1)"
    by simp
  note f = setters_frame [where h = "[5 \<mapsto> example_contents 1]" and a = 5
      and c = "example_contents 1" and v = "Some False", OF h]
  note t = setters_frame [where h = "[5 \<mapsto> example_contents 1]" and a = 5
      and c = "example_contents 1" and v = "Some True", OF h]
  have m: "set_mirrored [5 \<mapsto> example_contents 1] 5 (Some False)
     = Some ([5 \<mapsto> (example_contents 1)\<lparr>mirror_inside := Some False\<rparr>], 5)"
    using f [THEN conjunct1] by simp
  have k: "set_clips_same_type [5 \<mapsto> example_contents 1] 5 (Some True)
     = Some ([5 \<mapsto> (example_contents 1)\<lparr>clips_same_type := Some True\<rparr>], 5)"
    using t [THEN conjunct2, THEN conjunct1] by simp
  have d: "set_mirrored [5 \<mapsto> example_contents 1] 5 None
     \<noteq> set_mirrored [5 \<mapsto> example_contents 1] 5 (Some False)"
    by (rule f [THEN conjunct2, THEN conjunct2, THEN conjunct2, THEN conjunct2, THEN conjunct1])
  show ?thesis
    by (intro conjI m k d)
qed

section \<open>The document: the structural variant of a fresh document\<close>

text \<open>
  C10: a freshly constructed document holds the empty alternative of the variant
  (index 0) and an empty lump table. The empty alternative is one of the seven
  alternatives, distinct from the six structural ones, and a variant value holds exactly
  one of them. The one operation on a document that the header defines, the transfer of
  an extension lump, leaves the variant as it is.
\<close>

theorem fresh_document_monostate:
  "bsp (bspdata_t_new v lv) = Monostate \<and>
   index (bsp (bspdata_t_new v lv)) = 0 \<and>
   (index b = 0 \<longleftrightarrow> b = Monostate) \<and>
   index b < 7 \<and>
   entries (bspx (bspdata_t_new v lv)) = Map.empty \<and>
   bsp (fst (bspdata_transfer d n p sz)) = bsp d"
  by (cases b) (simp_all add: bspdata_t_new_def bspdata_transfer_def transfer_def)

text \<open>
  The theorem on a value-initialised document, before and after a transfer.
\<close>

theorem fresh_document_witness:
  "bsp (bspdata_t_new Null Null) = Monostate \<and>
   index (bsp (bspdata_t_new Null Null)) = 0 \<and>
   bsp (fst (bspdata_transfer (bspdata_t_new Null Null) ''RGBLIGHTING'' (Ptr 4096) 12))
     = Monostate"
  using fresh_document_monostate [of Null Null Monostate "bspdata_t_new Null Null"
      "''RGBLIGHTING''" "Ptr 4096" 12]
  by simp


end
